theory Spec2Isabelle
  imports Complex_Main "HOL-Library.Option_ord"
begin

section \<open>Forest-guided clustering: the model-selection core of \<open>interpret_rf.py\<close>\<close>

text \<open>
  The theory embeds the functions of \<open>src/interpret_rf.py\<close> that choose the number of
  clusters: the bootstrap resampler, the Jaccard matrix, the greedy matching, the stability
  table, the two quality scores and the search over candidate cluster counts.

  Conventions of the embedding.
  \<^item> A numpy vector is a list, a matrix a list of rows.
  \<^item> Cluster labels and sample indices are natural numbers; target values are integers.
  \<^item> A float is an exact rational. Rounding is not modelled. The special values the code
    can produce are modelled where they occur: \<open>-inf\<close> in the Jaccard matrix (type
    \<open>entry\<close>), \<open>+inf\<close> and \<open>nan\<close> in the quality scores (type \<open>flt\<close>).
  \<^item> A Python exception is a value \<open>Inl e\<close> of the result type.
  \<open>KMedoids\<close>, the random generator of numpy and the forest are outside the repository;
  they are parameters of the functions that call them.
\<close>

subsection \<open>Errors and floats\<close>

datatype error =
  AssertionError | KeyError | IndexError | ZeroDivisionError | ValueError | UnboundLocalError

text \<open>A float that is a number, \<open>+inf\<close> or \<open>nan\<close>.\<close>

datatype flt = Fin rat | PosInf | NaN

text \<open>Python's \<open>a < b\<close> on floats: false as soon as one side is \<open>nan\<close>.\<close>

fun flt_less :: "flt \<Rightarrow> flt \<Rightarrow> bool" where
  "flt_less (Fin a) (Fin b) = (a < b)"
| "flt_less (Fin a) PosInf = True"
| "flt_less _ _ = False"

text \<open>\<open>np.mean\<close> of a list of floats: \<open>nan\<close> for the empty list and for a list holding a
  \<open>nan\<close>.\<close>

fun fin_values :: "flt list \<Rightarrow> rat list option" where
  "fin_values [] = Some []"
| "fin_values (Fin r # xs) = map_option ((#) r) (fin_values xs)"
| "fin_values (_ # xs) = None"

definition np_mean :: "flt list \<Rightarrow> flt" where
  "np_mean xs =
     (if xs = [] \<or> NaN \<in> set xs then NaN
      else case fin_values xs of
             None \<Rightarrow> PosInf
           | Some rs \<Rightarrow> Fin (sum_list rs / of_nat (length rs)))"

subsection \<open>Vectors and label vectors\<close>

text \<open>\<open>np.unique(labels)\<close>: the distinct labels in ascending order.\<close>

definition unique :: "nat list \<Rightarrow> nat list" where
  "unique labels = sort (remdups labels)"

text \<open>\<open>sum(y == v)\<close>: how many entries of \<open>y\<close> equal \<open>v\<close>.\<close>

definition count_eq :: "int list \<Rightarrow> int \<Rightarrow> nat" where
  "count_eq y v = length (filter (\<lambda>x. x = v) y)"

text \<open>\<open>y[labels == cluster]\<close> for vectors of the same length.\<close>

definition select_cluster :: "'a list \<Rightarrow> nat list \<Rightarrow> nat \<Rightarrow> 'a list" where
  "select_cluster y labels cluster = map fst (filter (\<lambda>(v, l). l = cluster) (zip y labels))"

subsection \<open>Balanced average purity\<close>

text \<open>
  Lines 101 to 111. The counts \<open>n0\<close>, \<open>n1\<close> are numpy integers, so a division by a zero
  count does not raise: it gives \<open>inf\<close> or \<open>nan\<close>, written \<open>None\<close> here.
\<close>

definition small_label :: "int list \<Rightarrow> int" where
  "small_label y = (if count_eq y 0 \<le> count_eq y 1 then 0 else 1)"

definition large_label :: "int list \<Rightarrow> int" where
  "large_label y = (if count_eq y 0 \<le> count_eq y 1 then 1 else 0)"

definition up_scaling_factor :: "int list \<Rightarrow> rat option" where
  "up_scaling_factor y =
     (let n0 = count_eq y 0; n1 = count_eq y 1 in
      if n0 \<le> n1
      then (if n0 = 0 then None else Some (of_nat n1 / of_nat n0))
      else (if n1 = 0 then None else Some (of_nat n0 / of_nat n1)))"

text \<open>
  Lines 116 to 120, the body of the loop for one cluster. With a factor that is not a
  number every product and quotient is \<open>nan\<close>, and so is \<open>0/0\<close> when the cluster holds
  neither label.
\<close>

definition normalized_balanced_purity :: "rat option \<Rightarrow> int \<Rightarrow> int \<Rightarrow> int list \<Rightarrow> flt" where
  "normalized_balanced_purity up small large y_cluster =
     (case up of
        None \<Rightarrow> NaN
      | Some u \<Rightarrow>
          (let x_small = of_nat (count_eq y_cluster small) * u;
               x_large = of_nat (count_eq y_cluster large);
               x_tot = x_small + x_large
           in if x_tot = 0 then NaN
              else Fin ((x_small / x_tot) * (x_large / x_tot) / (1 / 4))))"

text \<open>The list \<open>balanced_purities\<close> when the loop ends.\<close>

definition balanced_purities :: "int list \<Rightarrow> nat list \<Rightarrow> flt list" where
  "balanced_purities y labels =
     map (\<lambda>cluster. normalized_balanced_purity (up_scaling_factor y) (small_label y)
                      (large_label y) (select_cluster y labels cluster))
         (unique labels)"

text \<open>
  The whole function. For an empty \<open>y\<close> the builtin \<open>sum\<close> returns the Python integer 0 and
  \<open>0/0\<close> raises; a mask of the wrong length raises in the first round of the loop.
\<close>

definition compute_balanced_average_purity :: "int list \<Rightarrow> nat list \<Rightarrow> error + flt" where
  "compute_balanced_average_purity y labels =
     (if y = [] then Inl ZeroDivisionError
      else if labels \<noteq> [] \<and> length labels \<noteq> length y then Inl IndexError
      else Inr (np_mean (balanced_purities y labels)))"

subsection \<open>Total within-cluster variation\<close>

text \<open>\<open>np.var(v) * len(v)\<close> for a vector of integers: the sum of the squared distances to
  the mean. The clusters of \<open>np.unique\<close> are never empty.\<close>

definition np_var :: "int list \<Rightarrow> rat" where
  "np_var v =
     (let mean = of_int (sum_list v) / of_nat (length v)
      in sum_list (map (\<lambda>x. (of_int x - mean)\<^sup>2) v) / of_nat (length v))"

definition compute_total_within_cluster_variation :: "int list \<Rightarrow> nat list \<Rightarrow> error + flt" where
  "compute_total_within_cluster_variation y labels =
     (if labels \<noteq> [] \<and> length labels \<noteq> length y then Inl IndexError
      else Inr (Fin (sum_list (map (\<lambda>cluster.
                   let y_cluster = select_cluster y labels cluster
                   in np_var y_cluster * of_nat (length y_cluster)) (unique labels)))))"

subsection \<open>Float arrays, the random generator\<close>

text \<open>
  A cell of a float array is a number or \<open>-inf\<close>, the value the matching writes over the
  rows and columns it eliminates. \<open>None\<close> is \<open>-inf\<close>; the order of \<open>rat option\<close> puts it
  below every number.
\<close>

type_synonym entry = "rat option"

type_synonym matrix = "entry list list"

abbreviation neg_inf :: entry where
  "neg_inf \<equiv> None"

text \<open>\<open>a + b\<close> and \<open>a / n\<close> (for a positive count \<open>n\<close>) on such floats.\<close>

fun add_entry :: "entry \<Rightarrow> entry \<Rightarrow> entry" where
  "add_entry (Some a) (Some b) = Some (a + b)"
| "add_entry _ _ = neg_inf"

definition div_entry :: "entry \<Rightarrow> nat \<Rightarrow> entry" where
  "div_entry e n = map_option (\<lambda>a. a / of_nat n) e"

text \<open>The shape test of lines 129 to 131 on a list of rows.\<close>

definition square :: "'a list list \<Rightarrow> bool" where
  "square M = list_all (\<lambda>row. length row = length M) M"

text \<open>
  The module \<open>np.random\<close>: the state of its global generator, and its attribute \<open>seed\<close>,
  which is the library's seeding function (\<open>None\<close>) until something is assigned to it.
\<close>

record 'g np_random =
  generator :: 'g
  seed_attr :: "int option"

text \<open>
  \<open>np.random.choice(np.arange(lm), lm)\<close> is a parameter \<open>random_choice\<close>: from the state
  of the generator and \<open>lm\<close> to the drawn indices and the next state.
\<close>

type_synonym 'g chooser = "'g \<Rightarrow> nat \<Rightarrow> nat list \<times> 'g"

text \<open>What numpy promises of it: \<open>lm\<close> indices, each below \<open>lm\<close>.\<close>

definition valid_samples :: "nat \<Rightarrow> nat list \<Rightarrow> bool" where
  "valid_samples lm samples = (length samples = lm \<and> list_all (\<lambda>s. s < lm) samples)"

subsection \<open>The bootstrap resampler\<close>

text \<open>\<open>M[:, samples][samples, :]\<close>: a new array; an index out of range raises.\<close>

definition resample :: "'a list list \<Rightarrow> nat list \<Rightarrow> 'a list list" where
  "resample M samples = map (\<lambda>p. map (\<lambda>q. M ! p ! q) samples) samples"

definition in_range :: "'a list list \<Rightarrow> nat list \<Rightarrow> bool" where
  "in_range M samples =
     list_all (\<lambda>s. s < length M \<and> list_all (\<lambda>row. s < length row) M) samples"

text \<open>The dictionary \<open>{bootstrapped: original}\<close> of line 174 is the list of the drawn
  indices: position \<open>p\<close> holds \<open>mapping[p]\<close>.\<close>

definition bootstrap_matrix ::
  "'g chooser \<Rightarrow> 'a list list \<Rightarrow> 'g \<Rightarrow> (error + 'a list list \<times> nat list) \<times> 'g" where
  "bootstrap_matrix random_choice M g =
     (let lm = length M;
          (bootstrapped_samples, g') = random_choice g lm
      in if in_range M bootstrapped_samples
         then (Inr (resample M bootstrapped_samples, bootstrapped_samples), g')
         else (Inl IndexError, g'))"

subsection \<open>Cluster labels to index sets\<close>

text \<open>Running a list of computations up to the first exception.\<close>

fun collect :: "(error + 'a) list \<Rightarrow> error + 'a list" where
  "collect [] = Inr []"
| "collect (x # xs) =
     (case x of
        Inl e \<Rightarrow> Inl e
      | Inr v \<Rightarrow> (case collect xs of Inl e \<Rightarrow> Inl e | Inr vs \<Rightarrow> Inr (v # vs)))"

text \<open>\<open>index_vector[labels == cluster]\<close>.\<close>

definition cluster_positions :: "nat list \<Rightarrow> nat \<Rightarrow> nat list" where
  "cluster_positions labels cluster = filter (\<lambda>p. labels ! p = cluster) [0..<length labels]"

text \<open>
  A dictionary from cluster id to indices is an association list in the order of
  \<open>np.unique\<close>. Without a mapping the value is the set of positions; with one it is the
  list of the original indices, and a position the mapping does not hold raises.
\<close>

type_synonym index_dict = "(nat \<times> nat list) list"

definition translate_indices :: "nat list option \<Rightarrow> nat list \<Rightarrow> error + nat list" where
  "translate_indices mapping indices =
     (case mapping of
        None \<Rightarrow> Inr indices
      | Some m \<Rightarrow>
          if list_all (\<lambda>index. index < length m) indices
          then Inr (map (\<lambda>index. m ! index) indices)
          else Inl KeyError)"

definition translate_cluster_labels_to_dictionary_of_index_sets_per_cluster ::
  "nat list \<Rightarrow> nat list option \<Rightarrow> error + index_dict" where
  "translate_cluster_labels_to_dictionary_of_index_sets_per_cluster labels mapping =
     collect (map (\<lambda>cluster.
                case translate_indices mapping (cluster_positions labels cluster) of
                  Inl e \<Rightarrow> Inl e
                | Inr indices \<Rightarrow> Inr (cluster, indices))
              (unique labels))"

subsection \<open>The Jaccard matrix\<close>

text \<open>
  Lines 221 to 227 for one pair of cluster ids: both dictionaries are read, the bootstrap
  one first, and the quotient of two Python integers raises on an empty union.
\<close>

definition jaccard_entry :: "index_dict \<Rightarrow> index_dict \<Rightarrow> nat \<Rightarrow> nat \<Rightarrow> error + entry" where
  "jaccard_entry indices_bootstrap_clusters indices_original_clusters cluster_original
       cluster_bootstrap =
     (case map_of indices_bootstrap_clusters cluster_bootstrap of
        None \<Rightarrow> Inl KeyError
      | Some indices_bootstrap \<Rightarrow>
          (case map_of indices_original_clusters cluster_original of
             None \<Rightarrow> Inl KeyError
           | Some indices_original \<Rightarrow>
               (let intersection = card (set indices_original \<inter> set indices_bootstrap);
                    union = card (set indices_original \<union> set indices_bootstrap)
                in if union = 0 then Inl ZeroDivisionError
                   else Inr (Some (of_nat intersection / of_nat union)))))"

definition compute_jaccard_matrix ::
  "nat list \<Rightarrow> index_dict \<Rightarrow> index_dict \<Rightarrow> error + matrix" where
  "compute_jaccard_matrix clusters indices_bootstrap_clusters indices_original_clusters =
     collect (map (\<lambda>cluster_original.
                collect (map (\<lambda>cluster_bootstrap.
                           jaccard_entry indices_bootstrap_clusters indices_original_clusters
                             cluster_original cluster_bootstrap)
                         clusters))
              clusters)"

subsection \<open>The greedy matching\<close>

text \<open>\<open>v.max()\<close> and \<open>v.argmax()\<close> of a vector: the largest cell and the first position
  that holds it. On an empty vector numpy raises; \<open>matching_step\<close> tests for it.\<close>

definition row_max :: "entry list \<Rightarrow> entry" where
  "row_max row = fold max row neg_inf"

definition argmax :: "entry list \<Rightarrow> nat" where
  "argmax row = length (takeWhile (\<lambda>x. x \<noteq> row_max row) row)"

text \<open>Lines 158 and 159: the row, then the column, is overwritten with \<open>-inf\<close>.\<close>

definition eliminate :: "matrix \<Rightarrow> nat \<Rightarrow> nat \<Rightarrow> matrix" where
  "eliminate J r c =
     map (\<lambda>row. row[c := neg_inf]) (J[r := replicate (length (J ! r)) neg_inf])"

text \<open>The dictionary \<open>index_per_cluster\<close>, keyed by the cluster ids in the order of
  \<open>clusters\<close>; \<open>d[k] += v\<close> raises on a key the dictionary does not hold.\<close>

type_synonym score_table = "(nat \<times> entry) list"

definition credit :: "score_table \<Rightarrow> nat \<Rightarrow> entry \<Rightarrow> error + score_table" where
  "credit index_per_cluster original_cluster best_index =
     (case map_of index_per_cluster original_cluster of
        None \<Rightarrow> Inl KeyError
      | Some v \<Rightarrow>
          Inr (map (\<lambda>(c, w). if c = original_cluster then (c, add_entry w best_index) else (c, w))
                 index_per_cluster))"

text \<open>
  One round of the loop of lines 154 to 162. The state is the Jaccard matrix, the
  dictionary and, for the proofs only, the list of the triples (\<open>original_cluster_number\<close>,
  \<open>bootstrapped_cluster_number\<close>, \<open>best_index\<close>) of the rounds done so far, which the source
  does not keep.
\<close>

type_synonym pair = "nat \<times> nat \<times> entry"

type_synonym matching = "matrix \<times> score_table \<times> pair list"

definition matching_step :: "nat list \<Rightarrow> matching \<Rightarrow> error + matching" where
  "matching_step clusters s =
     (case s of (jaccard_matrix, index_per_cluster, pairs) \<Rightarrow>
        if jaccard_matrix = [] \<or> [] \<in> set jaccard_matrix then Inl ValueError
        else
          (let best_index = row_max (map row_max jaccard_matrix);
               original_cluster_number = argmax (map row_max jaccard_matrix);
               bootstrapped_cluster_number = argmax (jaccard_matrix ! original_cluster_number);
               jaccard_matrix' =
                 eliminate jaccard_matrix original_cluster_number bootstrapped_cluster_number
           in if length clusters \<le> original_cluster_number then Inl IndexError
              else
                (case credit index_per_cluster (clusters ! original_cluster_number) best_index of
                   Inl e \<Rightarrow> Inl e
                 | Inr index_per_cluster' \<Rightarrow>
                     Inr (jaccard_matrix', index_per_cluster',
                          pairs @ [(original_cluster_number, bootstrapped_cluster_number,
                                    best_index)]))))"

fun matching_loop :: "nat \<Rightarrow> nat list \<Rightarrow> matching \<Rightarrow> error + matching" where
  "matching_loop 0 clusters s = Inr s"
| "matching_loop (Suc n) clusters s =
     (case matching_step clusters s of
        Inl e \<Rightarrow> Inl e
      | Inr s' \<Rightarrow> matching_loop n clusters s')"

text \<open>The whole loop: \<open>len(jaccard_matrix)\<close> rounds.\<close>

definition greedy_matching :: "nat list \<Rightarrow> matrix \<Rightarrow> score_table \<Rightarrow> error + matching" where
  "greedy_matching clusters jaccard_matrix index_per_cluster =
     matching_loop (length jaccard_matrix) clusters (jaccard_matrix, index_per_cluster, [])"

subsection \<open>The stability indices\<close>

text \<open>The clustering procedure is a parameter: from a distance matrix to the labels, or
  to the exception it raises.\<close>

type_synonym clusterer = "matrix \<Rightarrow> error + nat list"

text \<open>Lines 147 to 162: from the bootstrap labels to the dictionary after the matching,
  with the pairs it matched.\<close>

definition match_bootstrap ::
  "nat list \<Rightarrow> index_dict \<Rightarrow> score_table \<Rightarrow> nat list \<Rightarrow> nat list \<Rightarrow> error + matching" where
  "match_bootstrap clusters indices_original_clusters index_per_cluster bootstrapped_labels
       mapping =
     (case translate_cluster_labels_to_dictionary_of_index_sets_per_cluster bootstrapped_labels
             (Some mapping) of
        Inl e \<Rightarrow> Inl e
      | Inr indices_bootstrap_clusters \<Rightarrow>
          (case compute_jaccard_matrix clusters indices_bootstrap_clusters
                  indices_original_clusters of
             Inl e \<Rightarrow> Inl e
           | Inr jaccard_matrix \<Rightarrow> greedy_matching clusters jaccard_matrix index_per_cluster))"

text \<open>The body of the loop over the bootstraps, lines 144 to 162.\<close>

definition bootstrap_round ::
  "'g chooser \<Rightarrow> clusterer \<Rightarrow> matrix \<Rightarrow> nat list \<Rightarrow> index_dict \<Rightarrow> score_table \<Rightarrow> 'g
     \<Rightarrow> (error + score_table) \<times> 'g" where
  "bootstrap_round random_choice cluster_method distance_matrix clusters
       indices_original_clusters index_per_cluster g =
     (case bootstrap_matrix random_choice distance_matrix g of
        (Inl e, g') \<Rightarrow> (Inl e, g')
      | (Inr (bootsrapped_distance_matrix, mapping), g') \<Rightarrow>
          (case cluster_method bootsrapped_distance_matrix of
             Inl e \<Rightarrow> (Inl e, g')
           | Inr bootstrapped_labels \<Rightarrow>
               (case match_bootstrap clusters indices_original_clusters index_per_cluster
                       bootstrapped_labels mapping of
                  Inl e \<Rightarrow> (Inl e, g')
                | Inr (J, index_per_cluster', pairs) \<Rightarrow> (Inr index_per_cluster', g'))))"

fun bootstrap_rounds ::
  "'g chooser \<Rightarrow> clusterer \<Rightarrow> matrix \<Rightarrow> nat list \<Rightarrow> index_dict \<Rightarrow> nat \<Rightarrow> score_table \<Rightarrow> 'g
     \<Rightarrow> (error + score_table) \<times> 'g" where
  "bootstrap_rounds random_choice cluster_method distance_matrix clusters io 0
       index_per_cluster g = (Inr index_per_cluster, g)"
| "bootstrap_rounds random_choice cluster_method distance_matrix clusters io (Suc n)
       index_per_cluster g =
     (case bootstrap_round random_choice cluster_method distance_matrix clusters io
             index_per_cluster g of
        (Inl e, g') \<Rightarrow> (Inl e, g')
      | (Inr index_per_cluster', g') \<Rightarrow>
          bootstrap_rounds random_choice cluster_method distance_matrix clusters io n
            index_per_cluster' g')"

text \<open>Line 165. With no round done the values are still the Python integer 0, and
  \<open>0/0\<close> raises.\<close>

definition normalize :: "score_table \<Rightarrow> nat list \<Rightarrow> nat \<Rightarrow> error + score_table" where
  "normalize index_per_cluster clusters bootstraps =
     collect (map (\<lambda>cluster.
                case map_of index_per_cluster cluster of
                  None \<Rightarrow> Inl KeyError
                | Some v \<Rightarrow>
                    if bootstraps = 0 then Inl ZeroDivisionError
                    else Inr (cluster, div_entry v bootstraps))
              clusters)"

text \<open>
  The whole function, on the state of \<open>np.random\<close>. Line 132 is an assignment to the
  attribute \<open>np.random.seed\<close>; it is not a call, and the generator is left as it was. The
  number of bootstraps is a natural number.
\<close>

definition compute_stability_indices ::
  "'g chooser \<Rightarrow> matrix \<Rightarrow> clusterer \<Rightarrow> nat \<Rightarrow> int \<Rightarrow> 'g np_random
     \<Rightarrow> (error + score_table) \<times> 'g np_random" where
  "compute_stability_indices random_choice distance_matrix cluster_method bootstraps seed st =
     (if \<not> square distance_matrix then (Inl AssertionError, st)
      else
        (let st1 = st\<lparr>seed_attr := Some seed\<rparr> in
         case cluster_method distance_matrix of
           Inl e \<Rightarrow> (Inl e, st1)
         | Inr labels \<Rightarrow>
             (let clusters = unique labels in
              case translate_cluster_labels_to_dictionary_of_index_sets_per_cluster labels None of
                Inl e \<Rightarrow> (Inl e, st1)
              | Inr indices_original_clusters \<Rightarrow>
                  (case bootstrap_rounds random_choice cluster_method distance_matrix clusters
                          indices_original_clusters bootstraps
                          (map (\<lambda>cluster. (cluster, Some 0)) clusters) (generator st1) of
                     (Inl e, g) \<Rightarrow> (Inl e, st1\<lparr>generator := g\<rparr>)
                   | (Inr index_per_cluster, g) \<Rightarrow>
                       (normalize index_per_cluster clusters bootstraps,
                        st1\<lparr>generator := g\<rparr>)))))"

subsection \<open>The search for the number of clusters\<close>

text \<open>
  \<open>KMedoids(n_clusters = k, random_state, init = 'build', method = 'pam', max_iter).fit(X).labels_\<close>
  is a parameter \<open>kmedoids\<close>, a function of \<open>k\<close>, the seed, the iteration cap and the matrix.
\<close>

type_synonym kmedoids = "nat \<Rightarrow> int \<Rightarrow> int \<Rightarrow> clusterer"

text \<open>The lines the search prints: the minimal Jaccard index of a candidate, its score, or
  that no score was computed.\<close>

datatype event = JaccardIndex nat entry | ScoreOf nat flt | Instable

text \<open>The variables of the loop of \<open>optimizeK\<close>, the lines printed so far and the state of
  \<open>np.random\<close>.\<close>

record 'g search =
  score_min :: flt
  optimal_k :: nat
  printed :: "event list"
  np_state :: "'g np_random"

text \<open>\<open>min(values)\<close> of Python raises on the empty list.\<close>

definition py_min :: "entry list \<Rightarrow> error + entry" where
  "py_min values = (case values of [] \<Rightarrow> Inl ValueError | v # vs \<Rightarrow> Inr (fold min vs v))"

text \<open>\<open>min_index > discart_value\<close>.\<close>

definition above :: "entry \<Rightarrow> rat \<Rightarrow> bool" where
  "above min_index discart_value =
     (case min_index of None \<Rightarrow> False | Some v \<Rightarrow> discart_value < v)"

text \<open>Lines 78 to 83: with any other \<open>method\<close> the variable \<open>score\<close> is never bound, and
  line 84 raises.\<close>

definition quality_score :: "string \<Rightarrow> int list \<Rightarrow> nat list \<Rightarrow> error + flt" where
  "quality_score method y labels =
     (if method = ''clustering'' then compute_balanced_average_purity y labels
      else if method = ''regression'' then compute_total_within_cluster_variation y labels
      else Inl UnboundLocalError)"

text \<open>The body of the loop, lines 63 to 89, for one candidate \<open>k\<close>.\<close>

definition optimizeK_body ::
  "kmedoids \<Rightarrow> 'g chooser \<Rightarrow> matrix \<Rightarrow> int list \<Rightarrow> int \<Rightarrow> rat \<Rightarrow> nat \<Rightarrow> int \<Rightarrow> string
     \<Rightarrow> nat \<Rightarrow> 'g search \<Rightarrow> error + 'g search" where
  "optimizeK_body kmedoids random_choice distance_matrix y random_state discart_value bootstraps
       max_iter_clustering method k s =
     (let cluster_method = kmedoids k random_state max_iter_clustering in
      case cluster_method distance_matrix of
        Inl e \<Rightarrow> Inl e
      | Inr labels \<Rightarrow>
          (case compute_stability_indices random_choice distance_matrix cluster_method
                  bootstraps random_state (np_state s) of
             (Inl e, st) \<Rightarrow> Inl e
           | (Inr index_per_cluster, st) \<Rightarrow>
               (case py_min (map snd index_per_cluster) of
                  Inl e \<Rightarrow> Inl e
                | Inr min_index \<Rightarrow>
                    (let s1 = s\<lparr>printed := printed s @ [JaccardIndex k min_index],
                                 np_state := st\<rparr>
                     in if above min_index discart_value
                        then (case quality_score method y labels of
                                Inl e \<Rightarrow> Inl e
                              | Inr score \<Rightarrow>
                                  (let s2 = (if flt_less score (score_min s1)
                                             then s1\<lparr>optimal_k := k, score_min := score\<rparr>
                                             else s1)
                                   in Inr (s2\<lparr>printed := printed s2 @ [ScoreOf k score]\<rparr>)))
                        else Inr (s1\<lparr>printed := printed s1 @ [Instable]\<rparr>)))))"

fun optimizeK_loop :: "(nat \<Rightarrow> 'g search \<Rightarrow> error + 'g search) \<Rightarrow> nat list \<Rightarrow> 'g search
     \<Rightarrow> error + 'g search" where
  "optimizeK_loop body [] s = Inr s"
| "optimizeK_loop body (k # ks) s =
     (case body k s of Inl e \<Rightarrow> Inl e | Inr s' \<Rightarrow> optimizeK_loop body ks s')"

text \<open>The function up to its \<open>return\<close>: the final variables, of which \<open>optimal_k\<close> is
  returned. The argument \<open>x\<close> of the source is not used by it.\<close>

definition optimizeK_search ::
  "kmedoids \<Rightarrow> 'g chooser \<Rightarrow> matrix \<Rightarrow> int list \<Rightarrow> int \<Rightarrow> int \<Rightarrow> rat \<Rightarrow> nat \<Rightarrow> int \<Rightarrow> string
     \<Rightarrow> 'g np_random \<Rightarrow> error + 'g search" where
  "optimizeK_search kmedoids random_choice distance_matrix y max_K random_state discart_value
       bootstraps max_iter_clustering method st =
     optimizeK_loop
       (optimizeK_body kmedoids random_choice distance_matrix y random_state discart_value
          bootstraps max_iter_clustering method)
       [2..<nat max_K]
       \<lparr>score_min = PosInf, optimal_k = 1, printed = [], np_state = st\<rparr>"


text \<open>Reading the printed lines: the candidates whose Jaccard index was printed, and the
  candidates with a score.\<close>

fun evaluated :: "event list \<Rightarrow> nat list" where
  "evaluated [] = []"
| "evaluated (JaccardIndex k v # es) = k # evaluated es"
| "evaluated (e # es) = evaluated es"


subsection \<open>The entry point\<close>

text \<open>
  \<open>proximityMatrix\<close> with \<open>normalize = True\<close>. The argument is \<open>model.apply(X)\<close> by columns:
  one vector of leaf ids per tree. With no tree the quotient is \<open>0/0\<close> on Python integers.
\<close>

definition proximityMatrix :: "nat list list \<Rightarrow> error + rat list list" where
  "proximityMatrix terminals =
     (let nTrees = length terminals;
          n = (case terminals of [] \<Rightarrow> 0 | a # as \<Rightarrow> length a)
      in if nTrees = 0 then Inl ZeroDivisionError
         else Inr (map (\<lambda>i. map (\<lambda>j. of_nat (length (filter (\<lambda>a. a ! i = a ! j) terminals))
                                    / of_nat nTrees) [0..<n]) [0..<n]))"

text \<open>
  \<open>forest_guided_clustering\<close> up to the call of the renderer: the result is the \<open>k\<close> handed
  to it, with the lines the search printed. The two tests on the name of the model's type
  are the arguments \<open>is_regressor\<close> and \<open>is_classifier\<close>.
\<close>

definition forest_guided_clustering ::
  "kmedoids \<Rightarrow> 'g chooser \<Rightarrow> bool \<Rightarrow> bool \<Rightarrow> nat list list \<Rightarrow> int list \<Rightarrow> int \<Rightarrow> int \<Rightarrow> nat
     \<Rightarrow> int \<Rightarrow> nat option \<Rightarrow> 'g np_random \<Rightarrow> error + nat \<times> event list" where
  "forest_guided_clustering kmedoids random_choice is_regressor is_classifier terminals y max_K
       random_state bootstraps max_iter_clustering number_of_clusters st =
     (if \<not> is_regressor \<and> \<not> is_classifier then Inl ValueError
      else
        (let method = (if is_regressor then ''regression'' else ''clustering'') in
         case proximityMatrix terminals of
           Inl e \<Rightarrow> Inl e
         | Inr proximity \<Rightarrow>
             (let distanceMatrix = map (map (\<lambda>p. Some (1 - p))) proximity in
              case number_of_clusters of
                Some k \<Rightarrow> Inr (k, [])
              | None \<Rightarrow>
                  (case optimizeK_search kmedoids random_choice distanceMatrix y 6 random_state
                          (6 / 10) bootstraps max_iter_clustering method st of
                     Inl e \<Rightarrow> Inl e
                   | Inr s \<Rightarrow> Inr (optimal_k s, printed s)))))"

subsection \<open>Notions for the statements about the matching\<close>






subsection \<open>Notions for the statements about the search\<close>



subsection \<open>Stand-ins for the parameters, for the examples\<close>

text \<open>A generator that replays recorded draws: its state is the list of the index vectors
  still to come.\<close>

definition replay :: "nat list list chooser" where
  "replay g lm = (case g of [] \<Rightarrow> (replicate lm 0, []) | samples # g' \<Rightarrow> (samples, g'))"

text \<open>A clustering of the points in two groups: those at distance 0 of the first point,
  and the others.\<close>

definition near_first :: clusterer where
  "near_first X =
     (case X of [] \<Rightarrow> Inr [] | row # rows \<Rightarrow> Inr (map (\<lambda>d. if d = Some 0 then 0 else 1) row))"

text \<open>A stand-in for \<open>KMedoids\<close> that deals the points to the \<open>k\<close> clusters in turn.\<close>

definition round_robin :: kmedoids where
  "round_robin k random_state max_iter X = Inr (map (\<lambda>p. p mod k) [0..<length X])"

text \<open>Four points in two pairs: distance 0 inside a pair, 1 across.\<close>

definition two_pairs :: matrix where
  "two_pairs =
     [[Some 0, Some 0, Some 1, Some 1],
      [Some 0, Some 0, Some 1, Some 1],
      [Some 1, Some 1, Some 0, Some 0],
      [Some 1, Some 1, Some 0, Some 0]]"


section \<open>Properties\<close>

subsection \<open>The balanced average purity\<close>

lemma purity_arith:
  fixes a b :: rat
  assumes "0 \<le> a" "0 \<le> b" "a + b \<noteq> 0"
  shows "0 \<le> (a / (a + b)) * (b / (a + b)) / (1 / 4) \<and> (a / (a + b)) * (b / (a + b)) / (1 / 4) \<le> 1"
proof -
  have pos: "0 < a + b" using assms by linarith
  have sq: "0 < (a + b) * (a + b)" using pos by simp
  have e: "(a / (a + b)) * (b / (a + b)) / (1 / 4) = 4 * a * b / ((a + b) * (a + b))"
    by (simp add: field_simps)
  have "0 \<le> (a - b) * (a - b)" by simp
  then have le: "4 * a * b \<le> (a + b) * (a + b)" by (simp add: algebra_simps)
  have nn: "0 \<le> 4 * a * b" using assms by simp
  have "4 * a * b / ((a + b) * (a + b)) \<le> 1"
    using le sq by (simp add: divide_le_eq)
  moreover have "0 \<le> 4 * a * b / ((a + b) * (a + b))"
    using nn sq by (simp add: zero_le_divide_iff)
  ultimately show ?thesis unfolding e by blast
qed

lemma unique_set: "set (unique labels) = set labels"
  by (simp add: unique_def)

lemma unique_nonempty: "labels \<noteq> [] \<Longrightarrow> unique labels \<noteq> []"
proof
  assume "labels \<noteq> []" "unique labels = []"
  then have "set labels = {}" using unique_set[of labels] by simp
  then show False using \<open>labels \<noteq> []\<close> by simp
qed

lemma count_eq_binary:
  "set v \<subseteq> {0, 1} \<Longrightarrow> count_eq v 0 + count_eq v 1 = length v"
  by (induction v) (auto simp: count_eq_def)

lemma select_cluster_subset: "set (select_cluster y labels c) \<subseteq> set y"
  by (auto simp: select_cluster_def dest: set_zip_leftD)

lemma select_cluster_nonempty:
  "length labels = length y \<Longrightarrow> c \<in> set labels \<Longrightarrow> select_cluster y labels c \<noteq> []"
proof -
  assume len: "length labels = length y" and c: "c \<in> set labels"
  then obtain i where i: "i < length labels" "labels ! i = c" by (auto simp: in_set_conv_nth)
  have "(y ! i, c) \<in> set (zip y labels)"
    using i len by (auto simp: set_zip)
  then have "filter (\<lambda>(v, l). l = c) (zip y labels) \<noteq> []"
    by (auto simp: filter_empty_conv)
  then show ?thesis by (simp add: select_cluster_def)
qed

lemma nbp_bounds:
  assumes "0 < u" "set v \<subseteq> {0, 1}" "v \<noteq> []" "{small, large} = {0, 1}"
  shows "\<exists>r. normalized_balanced_purity (Some u) small large v = Fin r \<and> 0 \<le> r \<and> r \<le> 1"
proof -
  let ?a = "of_nat (count_eq v small) * u" and ?b = "(of_nat (count_eq v large) :: rat)"
  have sum: "count_eq v small + count_eq v large = length v"
    using count_eq_binary[OF assms(2)] assms(4) by (auto simp: doubleton_eq_iff)
  have a: "0 \<le> ?a" using assms(1) by simp
  have b: "0 \<le> ?b" by simp
  have "0 < length v" using assms(3) by simp
  then have "0 < count_eq v small \<or> 0 < count_eq v large" using sum by linarith
  then have "0 < ?a + ?b"
  proof
    assume "0 < count_eq v small"
    then have "0 < ?a" using assms(1) by simp
    then show ?thesis using b by linarith
  next
    assume "0 < count_eq v large"
    then have "0 < ?b" by simp
    then show ?thesis using a by linarith
  qed
  then have ne: "?a + ?b \<noteq> 0" by simp
  show ?thesis
    using purity_arith[OF a b ne] ne
    by (simp add: normalized_balanced_purity_def Let_def)
qed


lemma fin_values_all:
  assumes "\<forall>x\<in>set xs. \<exists>r. x = Fin r \<and> lo \<le> r \<and> r \<le> hi"
  shows "\<exists>rs. fin_values xs = Some rs \<and> length rs = length xs
            \<and> (\<forall>r\<in>set rs. lo \<le> r \<and> r \<le> hi)"
  using assms by (induction xs rule: fin_values.induct) auto

lemma sum_list_bounds:
  fixes rs :: "rat list"
  assumes "\<forall>r\<in>set rs. lo \<le> r \<and> r \<le> hi"
  shows "lo * of_nat (length rs) \<le> sum_list rs \<and> sum_list rs \<le> hi * of_nat (length rs)"
  using assms by (induction rs) (auto simp: algebra_simps)

lemma mean_in:
  fixes s :: rat
  assumes "0 < n" "lo * n \<le> s" "s \<le> hi * n"
  shows "lo \<le> s / n \<and> s / n \<le> hi"
proof
  show "lo \<le> s / n" using assms(1,2) by (simp add: pos_le_divide_eq)
  show "s / n \<le> hi" using assms(1,3) by (simp add: pos_divide_le_eq)
qed

lemma np_mean_bounds:
  assumes "xs \<noteq> []" "\<forall>x\<in>set xs. \<exists>r. x = Fin r \<and> lo \<le> r \<and> r \<le> hi"
  shows "\<exists>r. np_mean xs = Fin r \<and> lo \<le> r \<and> r \<le> hi"
proof -
  obtain rs where rs: "fin_values xs = Some rs" "length rs = length xs"
      "\<forall>r\<in>set rs. lo \<le> r \<and> r \<le> hi"
    using fin_values_all[OF assms(2)] by blast
  have nan: "NaN \<notin> set xs" using assms(2) by auto
  have n: "0 < (of_nat (length rs) :: rat)" using rs(2) assms(1) by simp
  have b: "lo * of_nat (length rs) \<le> sum_list rs \<and> sum_list rs \<le> hi * of_nat (length rs)"
    using sum_list_bounds[OF rs(3)] .
  have "lo \<le> sum_list rs / of_nat (length rs) \<and> sum_list rs / of_nat (length rs) \<le> hi"
    using mean_in[OF n] b by blast
  then show ?thesis using rs(1) nan assms(1) by (simp add: np_mean_def)
qed

lemma up_scaling_positive:
  assumes "0 \<in> set y" "1 \<in> set y"
  shows "\<exists>u. up_scaling_factor y = Some u \<and> 0 < u"
proof -
  have "0 < count_eq y 0" "0 < count_eq y 1"
    using assms by (auto simp: count_eq_def filter_empty_conv)
  then show ?thesis by (auto simp: up_scaling_factor_def Let_def)
qed

lemma labels_pair: "{small_label y, large_label y} = {0, 1}"
  by (auto simp: small_label_def large_label_def)

lemma balanced_purities_unit:
  assumes "0 \<in> set y" "1 \<in> set y" "set y \<subseteq> {0, 1}" "length labels = length y"
  shows "\<forall>p\<in>set (balanced_purities y labels). \<exists>r. p = Fin r \<and> 0 \<le> r \<and> r \<le> 1"
proof
  fix p assume "p \<in> set (balanced_purities y labels)"
  then have "p \<in> (\<lambda>c. normalized_balanced_purity (up_scaling_factor y) (small_label y)
                    (large_label y) (select_cluster y labels c)) ` set (unique labels)"
    by (simp add: balanced_purities_def)
  then obtain c where cu: "c \<in> set (unique labels)"
      and p: "p = normalized_balanced_purity (up_scaling_factor y) (small_label y)
                    (large_label y) (select_cluster y labels c)"
    by (rule imageE)
  have c: "c \<in> set labels" using cu by (simp add: unique_set)
  obtain u where u: "up_scaling_factor y = Some u" "0 < u"
    using up_scaling_positive[OF assms(1,2)] by blast
  have sub: "set (select_cluster y labels c) \<subseteq> {0, 1}"
    by (rule order_trans[OF select_cluster_subset assms(3)])
  show "\<exists>r. p = Fin r \<and> 0 \<le> r \<and> r \<le> 1"
    unfolding p u(1)
    by (rule nbp_bounds[OF u(2) sub select_cluster_nonempty[OF assms(4) c] labels_pair])
qed

lemma up_scaling_90_10:
  assumes "count_eq y 0 = 90" "count_eq y 1 = 10"
  shows "up_scaling_factor y = Some 9"
  unfolding up_scaling_factor_def Let_def assms by simp

lemma nbp_pure:
  assumes "count_eq v small = 0 \<or> count_eq v large = 0"
  shows "normalized_balanced_purity (Some u) small large v = Fin 0
       \<or> normalized_balanced_purity (Some u) small large v = NaN"
  using assms by (auto simp: normalized_balanced_purity_def Let_def)

text \<open>
  Claim C8. For a binary target \<open>y\<close> in which both labels occur, every normalized balanced
  purity in the list \<open>balanced_purities\<close> is a number in \<open>[0, 4]\<close>; when every cluster
  holds one label only, the averaged score is 0; and with 90 entries equal to 0 and 10
  equal to 1 the up-scaling factor is 9.
\<close>

theorem purity_bounds:
  assumes "set y = {0, 1}" and "length labels = length y"
  shows "(\<forall>p\<in>set (balanced_purities y labels). \<exists>r. p = Fin r \<and> 0 \<le> r \<and> r \<le> 4)
       \<and> ((\<forall>c\<in>set (unique labels). count_eq (select_cluster y labels c) 0 = 0
                                   \<or> count_eq (select_cluster y labels c) 1 = 0)
            \<longrightarrow> compute_balanced_average_purity y labels = Inr (Fin 0))
       \<and> (count_eq y 0 = 90 \<and> count_eq y 1 = 10 \<longrightarrow> up_scaling_factor y = Some 9)"
proof (intro conjI impI)
  have pre: "0 \<in> set y" "1 \<in> set y" "set y \<subseteq> {0, 1}" using assms(1) by auto
  have unit: "\<forall>p\<in>set (balanced_purities y labels). \<exists>r. p = Fin r \<and> 0 \<le> r \<and> r \<le> 1"
    by (rule balanced_purities_unit[OF pre assms(2)])
  show "\<forall>p\<in>set (balanced_purities y labels). \<exists>r. p = Fin r \<and> 0 \<le> r \<and> r \<le> 4"
  proof
    fix p assume "p \<in> set (balanced_purities y labels)"
    then obtain r where "p = Fin r" "0 \<le> r" "r \<le> 1" using unit by blast
    then show "\<exists>r. p = Fin r \<and> 0 \<le> r \<and> r \<le> 4" by auto
  qed
  have ne_y: "y \<noteq> []" using pre(1) by auto
  then have ne_l: "labels \<noteq> []" using assms(2) by auto
  then have ne_p: "balanced_purities y labels \<noteq> []"
    by (simp add: balanced_purities_def unique_nonempty)
  {
    assume sep: "\<forall>c\<in>set (unique labels). count_eq (select_cluster y labels c) 0 = 0
                                   \<or> count_eq (select_cluster y labels c) 1 = 0"
    obtain u where u: "up_scaling_factor y = Some u" "0 < u"
      using up_scaling_positive[OF pre(1,2)] by blast
    have zero: "\<forall>p\<in>set (balanced_purities y labels). \<exists>r. p = Fin r \<and> 0 \<le> r \<and> r \<le> 0"
    proof
      fix p assume in_p: "p \<in> set (balanced_purities y labels)"
      then have "p \<in> (\<lambda>c. normalized_balanced_purity (Some u) (small_label y)
                    (large_label y) (select_cluster y labels c)) ` set (unique labels)"
        by (simp add: balanced_purities_def u(1))
      then obtain c where c: "c \<in> set (unique labels)"
        and p: "p = normalized_balanced_purity (Some u) (small_label y)
                    (large_label y) (select_cluster y labels c)"
        by (rule imageE)
      have "count_eq (select_cluster y labels c) (small_label y) = 0
          \<or> count_eq (select_cluster y labels c) (large_label y) = 0"
        using sep c by (auto simp: small_label_def large_label_def)
      then have "p = Fin 0 \<or> p = NaN" unfolding p by (rule nbp_pure)
      moreover have "p \<noteq> NaN" using unit in_p by auto
      ultimately show "\<exists>r. p = Fin r \<and> 0 \<le> r \<and> r \<le> 0" by simp
    qed
    obtain r where "np_mean (balanced_purities y labels) = Fin r" "0 \<le> r" "r \<le> 0"
      using np_mean_bounds[OF ne_p zero] by blast
    then have "np_mean (balanced_purities y labels) = Fin 0" by simp
    then show "compute_balanced_average_purity y labels = Inr (Fin 0)"
      using ne_y assms(2) by (simp add: compute_balanced_average_purity_def)
  }
  {
    assume "count_eq y 0 = 90 \<and> count_eq y 1 = 10"
    then show "up_scaling_factor y = Some 9"
      by (simp add: up_scaling_90_10)
  }
qed



lemma unique_01: "unique [0, 1] = [0, 1]"
  by (simp add: unique_def)

text \<open>Claim C8 on three inputs: two pure clusters, one mixed cluster, and 90 against 10.\<close>

theorem purity_bounds_witness:
  "compute_balanced_average_purity [0, 1] [0, 1] = Inr (Fin 0)
   \<and> list_all (\<lambda>p. \<exists>r. p = Fin r \<and> 0 \<le> r \<and> r \<le> 4) (balanced_purities [0, 1, 1] [0, 0, 0])
   \<and> up_scaling_factor (replicate 90 0 @ replicate 10 1) = Some 9"
proof -
  have s1: "set [0, 1 :: int] = {0, 1}" by simp
  have l1: "length [0, 1 :: nat] = length [0, 1 :: int]" by simp
  have sep: "\<forall>c\<in>set (unique [0, 1]). count_eq (select_cluster [0, 1] [0, 1] c) 0 = 0
                                   \<or> count_eq (select_cluster [0, 1] [0, 1] c) 1 = 0"
    by (simp add: unique_01 select_cluster_def count_eq_def)
  have a: "compute_balanced_average_purity [0, 1] [0, 1] = Inr (Fin 0)"
    using purity_bounds[OF s1 l1] sep by blast
  have s2: "set [0, 1, 1 :: int] = {0, 1}" by auto
  have l2: "length [0, 0, 0 :: nat] = length [0, 1, 1 :: int]" by simp
  have b: "list_all (\<lambda>p. \<exists>r. p = Fin r \<and> 0 \<le> r \<and> r \<le> 4) (balanced_purities [0, 1, 1] [0, 0, 0])"
    using purity_bounds[OF s2 l2] by (simp add: list_all_iff)
  have s3: "set (replicate 90 0 @ replicate 10 (1 :: int)) = {0, 1}" by auto
  have l3: "length (replicate 100 (0 :: nat)) = length (replicate 90 0 @ replicate 10 (1 :: int))"
    by simp
  have c3: "count_eq (replicate 90 0 @ replicate 10 1) 0 = 90
          \<and> count_eq (replicate 90 0 @ replicate 10 1) 1 = 10"
    by (simp add: count_eq_def)
  have c: "up_scaling_factor (replicate 90 0 @ replicate 10 1) = Some 9"
    using purity_bounds[OF s3 l3] c3 by blast
  show ?thesis using a b c by blast
qed


subsection \<open>The bootstrap resampler\<close>

lemma in_range_valid:
  assumes "square M" "valid_samples (length M) samples"
  shows "in_range M samples"
  using assms by (auto simp: in_range_def valid_samples_def square_def list_all_iff)

lemma resample_nth:
  assumes "p < length samples" "q < length samples"
  shows "resample M samples ! p ! q = M ! (samples ! p) ! (samples ! q)"
  using assms by (simp add: resample_def)

lemma resample_square: "square (resample M samples)"
  by (simp add: square_def resample_def list_all_iff)

text \<open>
  Claim C6. For a square matrix \<open>M\<close> and a draw of \<open>length M\<close> indices below \<open>length M\<close>,
  \<open>bootstrap_matrix\<close> returns the draw as the mapping and a square matrix \<open>M'\<close> of the same
  size with \<open>M'[p, q] = M[mapping[p], mapping[q]]\<close> at every position; a symmetric \<open>M\<close>
  gives a symmetric \<open>M'\<close>.
\<close>

theorem bootstrap_matrix_mapping:
  assumes sq: "square M"
    and draw: "random_choice g (length M) = (samples, g')"
    and valid: "valid_samples (length M) samples"
  shows "\<exists>M'. bootstrap_matrix random_choice M g = (Inr (M', samples), g')
       \<and> length M' = length M \<and> square M'
       \<and> (\<forall>p<length M. \<forall>q<length M. M' ! p ! q = M ! (samples ! p) ! (samples ! q))
       \<and> ((\<forall>i<length M. \<forall>j<length M. M ! i ! j = M ! j ! i)
            \<longrightarrow> (\<forall>p<length M. \<forall>q<length M. M' ! p ! q = M' ! q ! p))"
proof -
  let ?M' = "resample M samples"
  have len: "length samples = length M" and below: "\<forall>s\<in>set samples. s < length M"
    using valid by (simp_all add: valid_samples_def list_all_iff)
  have run: "bootstrap_matrix random_choice M g = (Inr (?M', samples), g')"
    using in_range_valid[OF sq valid] draw by (simp add: bootstrap_matrix_def)
  have l: "length ?M' = length M" using len by (simp add: resample_def)
  have nth: "\<forall>p<length M. \<forall>q<length M. ?M' ! p ! q = M ! (samples ! p) ! (samples ! q)"
    using len by (simp add: resample_nth)
  have sym: "(\<forall>i<length M. \<forall>j<length M. M ! i ! j = M ! j ! i)
            \<longrightarrow> (\<forall>p<length M. \<forall>q<length M. ?M' ! p ! q = ?M' ! q ! p)"
  proof (intro impI allI)
    fix p q
    assume s: "\<forall>i<length M. \<forall>j<length M. M ! i ! j = M ! j ! i"
      and p: "p < length M" and q: "q < length M"
    have "samples ! p < length M" "samples ! q < length M"
      using below p q len by simp_all
    then have "M ! (samples ! p) ! (samples ! q) = M ! (samples ! q) ! (samples ! p)"
      using s by blast
    then show "?M' ! p ! q = ?M' ! q ! p" using nth p q by simp
  qed
  show ?thesis using run l resample_square nth sym by blast
qed

text \<open>Claim C6 on a symmetric 2 by 2 matrix and the draw \<open>[1, 0]\<close>.\<close>

theorem bootstrap_matrix_mapping_witness:
  "\<exists>M'. bootstrap_matrix replay [[1, 2], [2, 5 :: nat]] [[1, 0]] = (Inr (M', [1, 0]), [])
       \<and> length M' = 2 \<and> M' ! 0 ! 0 = 5 \<and> M' ! 0 ! 1 = 2 \<and> M' ! 0 ! 1 = M' ! 1 ! 0"
proof -
  let ?M = "[[1, 2], [2, 5 :: nat]]"
  have sq: "square ?M" by (simp add: square_def)
  have draw: "replay [[1, 0]] (length ?M) = ([1, 0], [])" by (simp add: replay_def)
  have valid: "valid_samples (length ?M) [1, 0]" by (simp add: valid_samples_def)
  have symm: "\<forall>i<length ?M. \<forall>j<length ?M. ?M ! i ! j = ?M ! j ! i"
    by (auto simp: less_Suc_eq)
  obtain M' where M': "bootstrap_matrix replay ?M [[1, 0]] = (Inr (M', [1, 0]), [])"
      "length M' = length ?M"
      "\<forall>p<length ?M. \<forall>q<length ?M. M' ! p ! q = ?M ! ([1, 0] ! p) ! ([1, 0] ! q)"
      "\<forall>p<length ?M. \<forall>q<length ?M. M' ! p ! q = M' ! q ! p"
    using bootstrap_matrix_mapping[where random_choice = replay and g = "[[1, 0]]",
            OF sq draw valid] symm
    by blast
  have "M' ! 0 ! 0 = 5" "M' ! 0 ! 1 = 2" "M' ! 0 ! 1 = M' ! 1 ! 0"
    using M'(3,4) by simp_all
  then show ?thesis using M'(1,2) by simp
qed

subsection \<open>The seed\<close>

text \<open>The result and the generator after the call are the same for every seed: the
  argument only ends up in the attribute \<open>np.random.seed\<close>.\<close>

lemma seed_is_ignored:
  "fst (compute_stability_indices random_choice M cluster_method bootstraps seed st)
     = fst (compute_stability_indices random_choice M cluster_method bootstraps seed' st)
   \<and> generator (snd (compute_stability_indices random_choice M cluster_method bootstraps seed st))
     = generator (snd (compute_stability_indices random_choice M cluster_method bootstraps seed' st))"
  by (simp add: compute_stability_indices_def Let_def split: sum.splits prod.splits)

text \<open>
  Claim C7 says that two runs with the same arguments give the same table. The code does
  not seed the generator, so the second of two calls in a row goes on where the first
  stopped. On the four points in two pairs, with one bootstrap and seed 42 both times, and
  a generator that draws \<open>[0, 1, 2, 3]\<close> and then \<open>[0, 0, 1, 2]\<close>, the first call gives
  stability 1 to both clusters and the second gives 1/2 to cluster 1.
\<close>

theorem seed_does_not_fix_the_draws:
  "fst (compute_stability_indices replay two_pairs near_first 1 42
          \<lparr>generator = [[0, 1, 2, 3], [0, 0, 1, 2]], seed_attr = None\<rparr>)
     = Inr [(0, Some 1), (1, Some 1)]
   \<and> fst (compute_stability_indices replay two_pairs near_first 1 42
          (snd (compute_stability_indices replay two_pairs near_first 1 42
                  \<lparr>generator = [[0, 1, 2, 3], [0, 0, 1, 2]], seed_attr = None\<rparr>)))
     = Inr [(0, Some 1), (1, Some (1 / 2))]"
  by code_simp

subsection \<open>The range of the search\<close>

text \<open>The entry point passes the literal 6 to the search, whatever its own \<open>max_K\<close>.\<close>

lemma max_K_is_not_used:
  "forest_guided_clustering kmedoids random_choice is_regressor is_classifier terminals y max_K
       random_state bootstraps max_iter_clustering number_of_clusters st
   = forest_guided_clustering kmedoids random_choice is_regressor is_classifier terminals y max_K'
       random_state bootstraps max_iter_clustering number_of_clusters st"
  by (simp add: forest_guided_clustering_def)

text \<open>
  Claim C3 says that a caller's \<open>max_K = m\<close> makes the search evaluate the candidates of
  \<open>[2, m)\<close>. With \<open>max_K = 10\<close> on six points the search evaluates 2, 3, 4 and 5 only.
\<close>

theorem search_stops_below_six:
  "\<exists>k log. forest_guided_clustering round_robin replay False True [[0, 0, 1, 1, 2, 2]]
               [0, 0, 1, 1, 0, 1] 10 42 1 300 None
               \<lparr>generator = replicate 4 [0, 1, 2, 3, 4, 5], seed_attr = None\<rparr> = Inr (k, log)
           \<and> evaluated log = [2, 3, 4, 5] \<and> evaluated log \<noteq> [2..<10]"
proof -
  have run: "forest_guided_clustering round_robin replay False True [[0, 0, 1, 1, 2, 2]]
               [0, 0, 1, 1, 0, 1] 10 42 1 300 None
               \<lparr>generator = replicate 4 [0, 1, 2, 3, 4, 5], seed_attr = None\<rparr>
        = Inr (5, [JaccardIndex 2 (Some 1), ScoreOf 2 (Fin (8 / 9)),
                   JaccardIndex 3 (Some 1), ScoreOf 3 (Fin (1 / 3)),
                   JaccardIndex 4 (Some 1), ScoreOf 4 (Fin (1 / 4)),
                   JaccardIndex 5 (Some 1), ScoreOf 5 (Fin (1 / 5))])"
    by code_simp
  have "[2..<10] = [2, 3, 4, 5, 6, 7, 8, 9 :: nat]" by code_simp
  then show ?thesis unfolding run by simp
qed

subsection \<open>The search\<close>

text \<open>\<open>min_index > discart_value\<close> in the order of the cells.\<close>

lemma above_iff: "above e d \<longleftrightarrow> Some d < e"
  by (cases e) (simp_all add: above_def)










subsection \<open>The greedy matching\<close>





























subsection \<open>One round of the matching\<close>






end
